theory Spec2Isabelle
  imports Main "HOL-Library.Word"
begin

unbundle bit_operations_syntax

section \<open>Strings\<close>

text \<open>
  Python strings are modelled as \<open>string\<close>, one \<open>char\<close> per byte of the UTF-8 form. The
  model is exact on ASCII text; the characters the program inspects (\<open>.\<close>, \<open>/\<close>, \<open>%\<close>,
  the letters of the extensions) are all ASCII.
\<close>

text \<open>\<open>needle in haystack\<close> on strings.\<close>

fun str_contains :: "string \<Rightarrow> string \<Rightarrow> bool" where
  "str_contains needle [] = (needle = [])"
| "str_contains needle (c # cs) =
     (take (length needle) (c # cs) = needle \<or> str_contains needle cs)"

text \<open>\<open>s.split(sep)\<close> with a one-character separator: never returns the empty list.\<close>

fun split :: "char \<Rightarrow> string \<Rightarrow> string list" where
  "split sep [] = [[]]"
| "split sep (c # cs) =
     (if c = sep then [] # split sep cs
      else (case split sep cs of
              w # ws \<Rightarrow> (c # w) # ws
            | [] \<Rightarrow> [[c]]))"

text \<open>\<open>sep.join(parts)\<close>.\<close>

fun join :: "string \<Rightarrow> string list \<Rightarrow> string" where
  "join sep [] = []"
| "join sep [w] = w"
| "join sep (w # ws) = w @ sep @ join sep ws"

text \<open>\<open>s.rfind(c)\<close>: the index of the last occurrence, \<open>-1\<close> when there is none.\<close>

fun rfind :: "string \<Rightarrow> char \<Rightarrow> int" where
  "rfind [] c = -1"
| "rfind (x # xs) c =
     (let r = rfind xs c in
      if 0 \<le> r then r + 1 else if x = c then 0 else -1)"

text \<open>\<open>s.lstrip('.')\<close>.\<close>

definition lstrip :: "char \<Rightarrow> string \<Rightarrow> string" where
  "lstrip c s = dropWhile (\<lambda>x. x = c) s"

text \<open>\<open>s.lower()\<close> on ASCII: only \<open>A\<close> to \<open>Z\<close> change.\<close>

definition lower_char :: "char \<Rightarrow> char" where
  "lower_char c =
     (let n = (of_char c :: nat) in
      if 65 \<le> n \<and> n \<le> 90 then char_of (n + 32) else c)"

definition lower :: "string \<Rightarrow> string" where
  "lower s = map lower_char s"

text \<open>The characters that Python strings write with escapes.\<close>

definition NUL :: char where "NUL = char_of (0 :: nat)"
definition LF :: char where "LF = char_of (10 :: nat)"
definition ESC :: char where "ESC = char_of (27 :: nat)"

section \<open>\<open>urllib.parse.unquote\<close>\<close>

definition hexval :: "char \<Rightarrow> nat option" where
  "hexval c =
     (let n = (of_char c :: nat) in
      if 48 \<le> n \<and> n \<le> 57 then Some (n - 48)
      else if 65 \<le> n \<and> n \<le> 70 then Some (n - 55)
      else if 97 \<le> n \<and> n \<le> 102 then Some (n - 87)
      else None)"

text \<open>
  A \<open>%\<close> followed by two hexadecimal digits becomes the byte they denote; any other
  \<open>%\<close> stays as it is.
\<close>

fun unquote :: "string \<Rightarrow> string" where
  "unquote (p # a # b # cs) =
     (if p = CHR ''%'' then
        (case (hexval a, hexval b) of
           (Some h, Some l) \<Rightarrow> char_of (16 * h + l) # unquote cs
         | _ \<Rightarrow> p # unquote (a # b # cs))
      else p # unquote (a # b # cs))"
| "unquote cs = cs"

section \<open>\<open>pathlib\<close> paths (POSIX flavour, CPython 3.11 to 3.13)\<close>

text \<open>
  A path is its root (\<open>''''\<close>, \<open>''/''\<close> or \<open>''//''\<close>) and the list of its
  components; \<open>.\<close> components and empty components are dropped when the path is built,
  \<open>..\<close> components are kept.
\<close>

record path =
  root :: string
  tail :: "string list"

text \<open>\<open>posixpath.splitroot\<close>: the root and the rest.\<close>

fun splitroot :: "string \<Rightarrow> string \<times> string" where
  "splitroot [] = ([], [])"
| "splitroot [a] = (if a = CHR ''/'' then (''/'', []) else ([], [a]))"
| "splitroot [a, b] =
     (if a \<noteq> CHR ''/'' then ([], [a, b])
      else if b \<noteq> CHR ''/'' then (''/'', [b])
      else (''//'', []))"
| "splitroot (a # b # c # cs) =
     (if a \<noteq> CHR ''/'' then ([], a # b # c # cs)
      else if b \<noteq> CHR ''/'' \<or> c = CHR ''/'' then (''/'', b # c # cs)
      else (''//'', c # cs))"

text \<open>\<open>pathlib.Path(s)\<close>.\<close>

definition Path :: "string \<Rightarrow> path" where
  "Path s =
     (let (rt, rel) = splitroot s in
      \<lparr>root = rt, tail = filter (\<lambda>x. x \<noteq> [] \<and> x \<noteq> ''.'') (split CHR ''/'' rel)\<rparr>)"

text \<open>\<open>str(p)\<close>.\<close>

definition str :: "path \<Rightarrow> string" where
  "str p =
     (if root p = [] \<and> tail p = [] then ''.''
      else root p @ join ''/'' (tail p))"

text \<open>\<open>p.name\<close>: the last component, empty when there is none.\<close>

definition name :: "path \<Rightarrow> string" where
  "name p = (if tail p = [] then [] else last (tail p))"

text \<open>\<open>p.suffix\<close>: from the last dot of the name on, unless that dot is first or last.\<close>

definition suffix :: "path \<Rightarrow> string" where
  "suffix p =
     (let nm = name p; i = rfind nm CHR ''.'' in
      if 0 < i \<and> i < int (length nm) - 1 then drop (nat i) nm else [])"

text \<open>\<open>p / n\<close> for a plain name \<open>n\<close>, as \<open>rglob\<close> builds the paths it yields.\<close>

definition child :: "path \<Rightarrow> string \<Rightarrow> path" where
  "child p n = p\<lparr>tail := tail p @ [n]\<rparr>"

section \<open>Extension classification and the allow-list\<close>

definition SUPPORTED_EXTENSIONS :: "string list" where
  "SUPPORTED_EXTENSIONS =
     [''pdf'', ''docx'', ''doc'', ''rtf'', ''odt'', ''txt'', ''md'',
      ''pptx'', ''ppt'', ''xlsx'', ''xls'', ''csv'', ''py'', ''sql'',
      ''js'', ''ts'', ''cs'', ''java'', ''go'', ''sh'', ''ps1'',
      ''json'', ''xml'', ''yaml'', ''yml'', ''toml'', ''html'', ''htm'',
      ''eml'', ''msg'', ''vtt'', ''srt'']"

text \<open>\<open>input_path.suffix.lstrip('.').lower()\<close>, the expression both surfaces use.\<close>

definition file_extension :: "path \<Rightarrow> string" where
  "file_extension p = lower (lstrip CHR ''.'' (suffix p))"

text \<open>\<open>file_extension in SUPPORTED_EXTENSIONS\<close>.\<close>

definition is_supported :: "string \<Rightarrow> bool" where
  "is_supported ext = (ext \<in> set SUPPORTED_EXTENSIONS)"

section \<open>The file system\<close>

text \<open>
  A file system is a tree. A regular file carries whether the process may read it, and its
  bytes; a directory carries whether the process may list it (read permission) and search
  it (execute permission), and its entries; a symbolic link carries its target, as
  \<open>pathlib\<close> parses it; \<open>Other\<close> stands for what is none of these (a device, a socket,
  a FIFO). The process is not privileged. The working directory is the list of the names
  that lead to it from \<open>/\<close>. The programs only read the file system, so it is a value that
  is passed in and never returned.
\<close>

type_synonym byte = "8 word"

datatype node =
    File bool "byte list"
  | Dir bool bool "(string \<times> node) list"
  | Symlink path
  | Other

record filesystem =
  root_dir :: node
  cwd :: "string list"

datatype errno = ENOENT | ENOTDIR | EACCES | ENAMETOOLONG | ELOOP | EISDIR | ENXIO

text \<open>
  Path resolution as the kernel does it. The arguments are the number of symbolic links
  that may still be followed, whether a link in the last place is followed, the root, the
  node reached so far followed by its ancestors up to the root, and the components still
  to go. Every step needs search permission on the directory it starts from; \<open>..\<close> steps
  back to the parent, and the parent of the root is the root; a name longer than 255 bytes
  is refused; the target of a link is walked from the directory that holds the link, or
  from the root when it is absolute.
\<close>

fun walk :: "nat \<Rightarrow> bool \<Rightarrow> node \<Rightarrow> node list \<Rightarrow> string list \<Rightarrow> errno + node list" where
  "walk k follow rt st [] = Inr st"
| "walk k follow rt [] (c # cs) = Inl ENOENT"
| "walk k follow rt (Dir r x es # up) (c # cs) =
     (if \<not> x then Inl EACCES
      else if c = ''.'' then walk k follow rt (Dir r x es # up) cs
      else if c = ''..'' then walk k follow rt (if up = [] then [Dir r x es] else up) cs
      else if 255 < length c then Inl ENAMETOOLONG
      else (case map_of es c of
              None \<Rightarrow> Inl ENOENT
            | Some (Symlink target) \<Rightarrow>
                if cs = [] \<and> \<not> follow then Inr (Symlink target # Dir r x es # up)
                else (case k of
                        0 \<Rightarrow> Inl ELOOP
                      | Suc k' \<Rightarrow>
                          walk k' follow rt
                            (if root target = [] then Dir r x es # up else [rt])
                            (tail target @ cs))
            | Some n \<Rightarrow> walk k follow rt (n # Dir r x es # up) cs))"
| "walk k follow rt (n # up) (c # cs) = Inl ENOTDIR"

text \<open>The working directory is entered by its names alone: the process holds it open.\<close>

fun enter :: "node list \<Rightarrow> string list \<Rightarrow> node list option" where
  "enter st [] = Some st"
| "enter (Dir r x es # up) (c # cs) =
     (case map_of es c of None \<Rightarrow> None | Some n \<Rightarrow> enter (n # Dir r x es # up) cs)"
| "enter st (c # cs) = None"

text \<open>
  The system calls \<open>stat\<close> (which follows a final link) and \<open>lstat\<close> (which does not) on
  the string of a path. A string of 4096 bytes or more is refused; at most 40 links are
  followed; the empty relative path is the string \<open>.\<close>.
\<close>

definition lookup :: "bool \<Rightarrow> filesystem \<Rightarrow> path \<Rightarrow> errno + node" where
  "lookup follow fs p =
     (if 4096 \<le> length (str p) then Inl ENAMETOOLONG
      else (case (if root p = [] then enter [root_dir fs] (cwd fs) else Some [root_dir fs]) of
              None \<Rightarrow> Inl ENOENT
            | Some st \<Rightarrow>
                (case walk 40 follow (root_dir fs) st
                        (if root p = [] \<and> tail p = [] then [''.''] else tail p) of
                   Inl e \<Rightarrow> Inl e
                 | Inr [] \<Rightarrow> Inl ENOENT
                 | Inr (n # up) \<Rightarrow> Inr n)))"

text \<open>Python's exceptions, as far as these programs can meet them.\<close>

datatype pyexc =
    ValueError
  | UnboundLocalError string
  | OSError errno string
  | RuntimeError string
  | RecursionError

text \<open>
  \<open>os.stat(p)\<close> and \<open>os.lstat(p)\<close>: an embedded NUL character is refused with
  \<open>ValueError\<close> before the kernel is asked; a failed call raises \<open>OSError\<close> with the
  error number and the string of the path.
\<close>

definition stat :: "filesystem \<Rightarrow> path \<Rightarrow> pyexc + node" where
  "stat fs p =
     (if NUL \<in> set (concat (tail p)) then Inl ValueError
      else (case lookup True fs p of Inl e \<Rightarrow> Inl (OSError e (str p)) | Inr n \<Rightarrow> Inr n))"

definition lstat :: "filesystem \<Rightarrow> path \<Rightarrow> pyexc + node" where
  "lstat fs p =
     (if NUL \<in> set (concat (tail p)) then Inl ValueError
      else (case lookup False fs p of Inl e \<Rightarrow> Inl (OSError e (str p)) | Inr n \<Rightarrow> Inr n))"

text \<open>
  \<open>pathlib._ignore_error\<close>: the error numbers that mean that the path is not there.
  (\<open>EBADF\<close> is in the list of the library too; no call of the model produces it.)
\<close>

definition ignore_error :: "errno \<Rightarrow> bool" where
  "ignore_error e = (e = ENOENT \<or> e = ENOTDIR \<or> e = ELOOP)"

text \<open>
  \<open>p.exists()\<close>, \<open>p.is_file()\<close>, \<open>p.is_dir()\<close>: an ignored error and \<open>ValueError\<close>
  give \<open>False\<close>, every other \<open>OSError\<close> is raised again.
\<close>

definition exists :: "filesystem \<Rightarrow> path \<Rightarrow> pyexc + bool" where
  "exists fs p =
     (case stat fs p of
        Inr n \<Rightarrow> Inr True
      | Inl (OSError e f) \<Rightarrow> if ignore_error e then Inr False else Inl (OSError e f)
      | Inl ValueError \<Rightarrow> Inr False
      | Inl e \<Rightarrow> Inl e)"

definition is_file :: "filesystem \<Rightarrow> path \<Rightarrow> pyexc + bool" where
  "is_file fs p =
     (case stat fs p of
        Inr n \<Rightarrow> Inr (case n of File r c \<Rightarrow> True | _ \<Rightarrow> False)
      | Inl (OSError e f) \<Rightarrow> if ignore_error e then Inr False else Inl (OSError e f)
      | Inl ValueError \<Rightarrow> Inr False
      | Inl e \<Rightarrow> Inl e)"

definition is_dir :: "filesystem \<Rightarrow> path \<Rightarrow> pyexc + bool" where
  "is_dir fs p =
     (case stat fs p of
        Inr n \<Rightarrow> Inr (case n of Dir r x es \<Rightarrow> True | _ \<Rightarrow> False)
      | Inl (OSError e f) \<Rightarrow> if ignore_error e then Inr False else Inl (OSError e f)
      | Inl ValueError \<Rightarrow> Inr False
      | Inl e \<Rightarrow> Inl e)"

text \<open>\<open>repr\<close> of a string without quotes or escapes in it.\<close>

definition quoted :: "string \<Rightarrow> string" where
  "quoted s = [CHR 0x27] @ s @ [CHR 0x27]"

definition strerror :: "errno \<Rightarrow> string" where
  "strerror e =
     (case e of
        ENOENT \<Rightarrow> ''[Errno 2] No such file or directory''
      | ENOTDIR \<Rightarrow> ''[Errno 20] Not a directory''
      | EACCES \<Rightarrow> ''[Errno 13] Permission denied''
      | ENAMETOOLONG \<Rightarrow> ''[Errno 36] File name too long''
      | ELOOP \<Rightarrow> ''[Errno 40] Too many levels of symbolic links''
      | EISDIR \<Rightarrow> ''[Errno 21] Is a directory''
      | ENXIO \<Rightarrow> ''[Errno 6] No such device or address'')"

text \<open>\<open>str(e)\<close> for a caught exception \<open>e\<close>.\<close>

definition str_exc :: "pyexc \<Rightarrow> string" where
  "str_exc e =
     (case e of
        ValueError \<Rightarrow> ''embedded null byte''
      | UnboundLocalError v \<Rightarrow>
          ''cannot access local variable '' @ quoted v @ '' where it is not associated with a value''
      | OSError n f \<Rightarrow> strerror n @ '': '' @ quoted f
      | RuntimeError m \<Rightarrow> m
      | RecursionError \<Rightarrow> ''maximum recursion depth exceeded'')"

text \<open>
  \<open>open(p)\<close> followed by reading: the bytes of a readable regular file, an exception
  otherwise. The programs open a path only after \<open>is_file\<close> has held for it.
\<close>

definition open_read :: "filesystem \<Rightarrow> path \<Rightarrow> pyexc + byte list" where
  "open_read fs p =
     (case stat fs p of
        Inl e \<Rightarrow> Inl e
      | Inr (File readable content) \<Rightarrow>
          if readable then Inr content else Inl (OSError EACCES (str p))
      | Inr (Dir r x es) \<Rightarrow> Inl (OSError EISDIR (str p))
      | Inr n \<Rightarrow> Inl (OSError ENXIO (str p)))"

text \<open>
  \<open>os.scandir(p)\<close>, read to its end: the entries of a directory that the process may
  list.
\<close>

definition scandir :: "filesystem \<Rightarrow> path \<Rightarrow> pyexc + (string \<times> node) list" where
  "scandir fs p =
     (case stat fs p of
        Inl e \<Rightarrow> Inl e
      | Inr (Dir r x es) \<Rightarrow> if r then Inr es else Inl (OSError EACCES (str p))
      | Inr n \<Rightarrow> Inl (OSError ENOTDIR (str p)))"

section \<open>\<open>Path.resolve\<close>\<close>

text \<open>
  \<open>posixpath._joinrealpath\<close>. The path built so far grows by one component at a time;
  \<open>..\<close> takes the last component off; a symbolic link is replaced by what its target
  resolves to, unless the link is already being resolved (it is in \<open>seen\<close>): then the
  result is what has been built, with the flag \<open>False\<close>. A component whose \<open>lstat\<close>
  fails is kept as it is. The first argument bounds the depth of the recursion, which the
  interpreter limits; beyond it the call ends with \<open>RecursionError\<close>.
\<close>

definition pardir :: "path \<Rightarrow> path" where
  "pardir p =
     (if root p = [] \<and> tail p = [] then p\<lparr>tail := [''..'']\<rparr>
      else if tail p = [] then p
      else if last (tail p) = ''..'' then p\<lparr>tail := tail p @ [''..'']\<rparr>
      else p\<lparr>tail := butlast (tail p)\<rparr>)"

definition subpath :: "path \<Rightarrow> string list \<Rightarrow> path" where
  "subpath p ns = p\<lparr>tail := tail p @ ns\<rparr>"

fun joinrealpath ::
  "nat \<Rightarrow> filesystem \<Rightarrow> path list \<Rightarrow> path \<Rightarrow> string list \<Rightarrow> pyexc + path \<times> bool"
where
  "joinrealpath depth fs seen pth [] = Inr (pth, True)"
| "joinrealpath depth fs seen pth (nm # rest) =
     (if nm = ''..'' then joinrealpath depth fs seen (pardir pth) rest
      else
        (let newpath = child pth nm in
         case lstat fs newpath of
           Inl (OSError e f) \<Rightarrow> joinrealpath depth fs seen newpath rest
         | Inl e \<Rightarrow> Inl e
         | Inr (Symlink target) \<Rightarrow>
             if newpath \<in> set seen then Inr (subpath newpath rest, False)
             else (case depth of
                     0 \<Rightarrow> Inl RecursionError
                   | Suc d \<Rightarrow>
                       (case joinrealpath d fs (newpath # seen)
                               (if root target = [] then pth else \<lparr>root = ''/'', tail = []\<rparr>)
                               (tail target) of
                          Inl e \<Rightarrow> Inl e
                        | Inr (resolved, ok) \<Rightarrow>
                            if ok then joinrealpath depth fs seen resolved rest
                            else Inr (subpath resolved rest, False)))
         | Inr n \<Rightarrow> joinrealpath depth fs seen newpath rest))"

text \<open>\<open>sys.getrecursionlimit()\<close>; the frames in use at the call are not counted.\<close>

definition recursion_limit :: nat where
  "recursion_limit = 1000"

text \<open>
  \<open>os.path.abspath\<close> on the result: the working directory is put in front of a relative
  path, and the \<open>..\<close> components are taken out one by one, each with the component before
  it.
\<close>

fun collapse :: "string list \<Rightarrow> string list \<Rightarrow> string list" where
  "collapse acc [] = acc"
| "collapse acc (c # cs) =
     (if c = ''..'' then collapse (butlast acc) cs else collapse (acc @ [c]) cs)"

definition abspath :: "filesystem \<Rightarrow> path \<Rightarrow> path" where
  "abspath fs p =
     \<lparr>root = ''/'', tail = collapse [] ((if root p = [] then cwd fs else []) @ tail p)\<rparr>"

text \<open>
  \<open>p.resolve()\<close>: \<open>realpath\<close>, then a \<open>stat\<close> of the result whose only purpose is to
  turn \<open>ELOOP\<close> into \<open>RuntimeError\<close>; its other errors are dropped.
\<close>

definition resolve :: "filesystem \<Rightarrow> path \<Rightarrow> pyexc + path" where
  "resolve fs p =
     (case joinrealpath recursion_limit fs []
             \<lparr>root = (if root p = [] then [] else ''/''), tail = []\<rparr> (tail p) of
        Inl e \<Rightarrow> Inl e
      | Inr (s, ok) \<Rightarrow>
          (let resolved = abspath fs s in
           case stat fs resolved of
             Inl (OSError e f) \<Rightarrow>
               if e = ELOOP then Inl (RuntimeError (''Symlink loop from '' @ quoted f))
               else Inr resolved
           | Inl e \<Rightarrow> Inl e
           | Inr n \<Rightarrow> Inr resolved))"

section \<open>Recursive file discovery\<close>

text \<open>
  A generator is modelled by what it yields and how it ends: exhausted, or with an
  exception.
\<close>

type_synonym 'a generator = "'a list \<times> pyexc option"

definition then_gen :: "'a generator \<Rightarrow> 'a generator \<Rightarrow> 'a generator" where
  "then_gen g h = (case snd g of None \<Rightarrow> (fst g @ fst h, snd h) | Some e \<Rightarrow> g)"

definition chain_gen :: "'a generator list \<Rightarrow> 'a generator" where
  "chain_gen gs = foldr then_gen gs ([], None)"

text \<open>
  \<open>root.rglob('*')\<close> below a directory: the selector for \<open>**\<close> visits the directory and
  then, in turn, each entry that is itself a directory (a link to a directory is not),
  and the selector for \<open>*\<close> yields every entry of the directory visited, hidden ones too.
  A directory that the process may not list is passed over in silence
  (\<open>except PermissionError: return\<close>); any other error of \<open>scandir\<close> ends the generator.
  The third argument is the directory that the path names.
\<close>

fun rglob_node :: "filesystem \<Rightarrow> path \<Rightarrow> node \<Rightarrow> path generator" where
  "rglob_node fs parent_path (Dir r x es) =
     (case scandir fs parent_path of
        Inl (OSError e f) \<Rightarrow> if e = EACCES then ([], None) else ([], Some (OSError e f))
      | Inl e \<Rightarrow> ([], Some e)
      | Inr entries \<Rightarrow>
          then_gen (map (\<lambda>e. child parent_path (fst e)) entries, None)
            (chain_gen
               (map (\<lambda>e. case snd e of
                            Dir r' x' es' \<Rightarrow> rglob_node fs (child parent_path (fst e)) (snd e)
                          | _ \<Rightarrow> ([], None))
                    es)))"
| "rglob_node fs parent_path n = ([], None)"

text \<open>\<open>if p not in yielded: yield p; yielded.add(p)\<close>.\<close>

definition uniq :: "'a list \<Rightarrow> 'a list" where
  "uniq xs = fold (\<lambda>p yielded. if p \<in> set yielded then yielded else yielded @ [p]) xs []"

definition rglob :: "filesystem \<Rightarrow> path \<Rightarrow> path generator" where
  "rglob fs p =
     (case is_dir fs p of
        Inl e \<Rightarrow> ([], Some e)
      | Inr False \<Rightarrow> ([], None)
      | Inr True \<Rightarrow>
          (case stat fs p of
             Inl e \<Rightarrow> ([], Some e)
           | Inr d \<Rightarrow> (case rglob_node fs p d of (ps, ending) \<Rightarrow> (uniq ps, ending))))"

text \<open>
  \<open>for x in xs: if keep(x): acc.append(x)\<close>, the loop of the extension filters.
\<close>

definition append_if :: "('a \<Rightarrow> bool) \<Rightarrow> 'a list \<Rightarrow> 'a list \<Rightarrow> 'a list" where
  "append_if keep xs acc = fold (\<lambda>x acc. if keep x then acc @ [x] else acc) xs acc"

text \<open>
  The loop of \<open>get_all_files_recursive\<close> draws the paths from the generator one by one and
  asks \<open>is_file\<close> for each; the first exception, of \<open>is_file\<close> or of the generator, ends
  it.
\<close>

fun collect_files :: "filesystem \<Rightarrow> path list \<Rightarrow> pyexc option \<Rightarrow> path list \<Rightarrow> pyexc + path list" where
  "collect_files fs [] ending file_paths =
     (case ending of None \<Rightarrow> Inr file_paths | Some e \<Rightarrow> Inl e)"
| "collect_files fs (p # ps) ending file_paths =
     (case is_file fs p of
        Inl e \<Rightarrow> Inl e
      | Inr b \<Rightarrow> collect_files fs ps ending (if b then file_paths @ [p] else file_paths))"

definition get_all_files_recursive :: "filesystem \<Rightarrow> path \<Rightarrow> pyexc + path list" where
  "get_all_files_recursive fs root_folder_path =
     (let file_paths = [] in
      case rglob fs root_folder_path of
        (ps, ending) \<Rightarrow> collect_files fs ps ending file_paths)"

section \<open>SHA-256 (FIPS 180-4), as \<open>hashlib\<close> computes it\<close>

text \<open>
  \<open>hashlib.file_digest(f, "sha256")\<close> feeds the bytes of the file, read in chunks, to
  SHA-256; the digest is that of the whole content. The function is written out from the
  standard: padding, the message schedule, 64 rounds for each block of 64 bytes.
\<close>

type_synonym word32 = "32 word"

type_synonym state256 =
  "word32 \<times> word32 \<times> word32 \<times> word32 \<times> word32 \<times> word32 \<times> word32 \<times> word32"

definition K256 :: "word32 list" where
  "K256 =  \<comment> \<open>the fractional parts of the cube roots of the first 64 primes\<close>
     [
      1116352408, 1899447441, 3049323471, 3921009573, 961987163, 1508970993,
      2453635748, 2870763221, 3624381080, 310598401, 607225278, 1426881987,
      1925078388, 2162078206, 2614888103, 3248222580, 3835390401, 4022224774,
      264347078, 604807628, 770255983, 1249150122, 1555081692, 1996064986,
      2554220882, 2821834349, 2952996808, 3210313671, 3336571891, 3584528711,
      113926993, 338241895, 666307205, 773529912, 1294757372, 1396182291,
      1695183700, 1986661051, 2177026350, 2456956037, 2730485921, 2820302411,
      3259730800, 3345764771, 3516065817, 3600352804, 4094571909, 275423344,
      430227734, 506948616, 659060556, 883997877, 958139571, 1322822218,
      1537002063, 1747873779, 1955562222, 2024104815, 2227730452, 2361852424,
      2428436474, 2756734187, 3204031479, 3329325298]"

definition H256 :: state256 where
  "H256 =
     (1779033703, 3144134277, 1013904242, 2773480762,
      1359893119, 2600822924, 528734635, 1541459225)"

definition rotr :: "nat \<Rightarrow> word32 \<Rightarrow> word32" where
  "rotr n x = word_rotr n x"

definition Ch :: "word32 \<Rightarrow> word32 \<Rightarrow> word32 \<Rightarrow> word32" where
  "Ch x y z = (x AND y) XOR (NOT x AND z)"

definition Maj :: "word32 \<Rightarrow> word32 \<Rightarrow> word32 \<Rightarrow> word32" where
  "Maj x y z = (x AND y) XOR (x AND z) XOR (y AND z)"

definition bsig0 :: "word32 \<Rightarrow> word32" where
  "bsig0 x = rotr 2 x XOR rotr 13 x XOR rotr 22 x"

definition bsig1 :: "word32 \<Rightarrow> word32" where
  "bsig1 x = rotr 6 x XOR rotr 11 x XOR rotr 25 x"

definition ssig0 :: "word32 \<Rightarrow> word32" where
  "ssig0 x = rotr 7 x XOR rotr 18 x XOR drop_bit 3 x"

definition ssig1 :: "word32 \<Rightarrow> word32" where
  "ssig1 x = rotr 17 x XOR rotr 19 x XOR drop_bit 10 x"

text \<open>The length of the message in bits, as eight bytes, most significant first.\<close>

definition be64 :: "nat \<Rightarrow> byte list" where
  "be64 n = map (\<lambda>i. ucast (drop_bit (8 * i) (of_nat n :: 64 word))) [7, 6, 5, 4, 3, 2, 1, 0]"

definition pad :: "byte list \<Rightarrow> byte list" where
  "pad msg =
     msg @ [0x80] @ replicate ((119 - length msg mod 64) mod 64) 0
     @ be64 (8 * length msg)"

primrec chunks :: "nat \<Rightarrow> nat \<Rightarrow> 'a list \<Rightarrow> 'a list list" where
  "chunks sz 0 xs = []"
| "chunks sz (Suc k) xs = take sz xs # chunks sz k (drop sz xs)"

definition be32 :: "byte list \<Rightarrow> word32" where
  "be32 bs = foldl (\<lambda>w b. push_bit 8 w OR ucast b) 0 bs"

text \<open>The 64 words of the message schedule of one block.\<close>

definition schedule :: "byte list \<Rightarrow> word32 list" where
  "schedule block =
     fold (\<lambda>t w. w @ [ssig1 (w ! (t - 2)) + w ! (t - 7) + ssig0 (w ! (t - 15)) + w ! (t - 16)])
          [16..<64] (map be32 (chunks 4 16 block))"

definition round256 :: "word32 list \<Rightarrow> nat \<Rightarrow> state256 \<Rightarrow> state256" where
  "round256 w t s =
     (case s of (a, b, c, d, e, f, g, h) \<Rightarrow>
        (let t1 = h + bsig1 e + Ch e f g + K256 ! t + w ! t;
             t2 = bsig0 a + Maj a b c
         in (t1 + t2, a, b, c, d + t1, e, f, g)))"

definition compress :: "byte list \<Rightarrow> state256 \<Rightarrow> state256" where
  "compress block s =
     (case (s, fold (round256 (schedule block)) [0..<64] s) of
        ((a, b, c, d, e, f, g, h), (a', b', c', d', e', f', g', h')) \<Rightarrow>
          (a + a', b + b', c + c', d + d', e + e', f + f', g + g', h + h'))"

definition sha256 :: "byte list \<Rightarrow> state256" where
  "sha256 msg =
     (let padded = pad msg in
      fold compress (chunks 64 (length padded div 64) padded) H256)"

text \<open>\<open>.hexdigest()\<close>: two lowercase hexadecimal digits for each of the 32 bytes.\<close>

definition hexdigit :: "nat \<Rightarrow> char" where
  "hexdigit n = ''0123456789abcdef'' ! n"

definition hex32 :: "word32 \<Rightarrow> string" where
  "hex32 w = map (\<lambda>i. hexdigit (unat (drop_bit (4 * i) w AND 0xf))) [7, 6, 5, 4, 3, 2, 1, 0]"

definition hexdigest :: "state256 \<Rightarrow> string" where
  "hexdigest s =
     (case s of (a, b, c, d, e, f, g, h) \<Rightarrow>
        hex32 a @ hex32 b @ hex32 c @ hex32 d @ hex32 e @ hex32 f @ hex32 g @ hex32 h)"

section \<open>Console output\<close>

text \<open>
  Standard output is the list of the strings printed, one for each call of \<open>print\<close>.
  A path is printed between quotes as it is, which is its \<open>repr\<close> when it holds no
  quote and no escape.
\<close>

definition red :: "string \<Rightarrow> string" where
  "red s = [ESC] @ ''[91m'' @ s @ [ESC] @ ''[0m''"

definition yellow :: "string \<Rightarrow> string" where
  "yellow s = [ESC] @ ''[93m'' @ s @ [ESC] @ ''[0m''"

text \<open>\<open>str(n)\<close> for a length.\<close>

fun show_nat :: "nat \<Rightarrow> string" where
  "show_nat n =
     (if n < 10 then [hexdigit n] else show_nat (n div 10) @ [hexdigit (n mod 10)])"

section \<open>The command-line tool (\<open>services/api/process_file.py\<close>)\<close>

text \<open>
  The hashing loop of \<open>main\<close>. The body of the \<open>try\<close> opens the file, hashes it and
  prints the digest; \<open>except IOError\<close> and \<open>except Exception\<close> print a line each, and
  the loop goes on in all three cases.
\<close>

fun hash_loop :: "filesystem \<Rightarrow> path list \<Rightarrow> string list \<Rightarrow> string list" where
  "hash_loop fs [] out = out"
| "hash_loop fs (current_file_path # rest) out =
     (case open_read fs current_file_path of
        Inr content \<Rightarrow>
          (let hashed_content = hexdigest (sha256 content) in
           hash_loop fs rest
             (out @ [''File: '' @ quoted (str current_file_path) @ [LF]
                     @ ''  Hash: '' @ hashed_content @ [LF]]))
      | Inl (OSError n f) \<Rightarrow>
          hash_loop fs rest
            (out @ [red (''Error processing '' @ quoted (str current_file_path) @ '': ''
                         @ str_exc (OSError n f))])
      | Inl e \<Rightarrow>
          hash_loop fs rest
            (out @ [red (''An unexpected error occurred with ''
                         @ quoted (str current_file_path) @ '': '' @ str_exc e)]))"

text \<open>
  \<open>main\<close>, with the path from the command line or the prompt as its argument. It
  returns nothing; its result is what it prints and, when one of the queries on the path or
  the discovery raises, the exception, which nothing catches.
\<close>

definition main :: "filesystem \<Rightarrow> string \<Rightarrow> string list \<times> pyexc option" where
  "main fs raw_input_path =
     (let input_path = Path raw_input_path in
      case exists fs input_path of
        Inl e \<Rightarrow> ([], Some e)
      | Inr False \<Rightarrow>
          ([red (''Error: Path not found at: '' @ quoted (str input_path))], None)
      | Inr True \<Rightarrow>
          (case is_file fs input_path of
             Inl e \<Rightarrow> ([], Some e)
           | Inr True \<Rightarrow>
               (let ext = file_extension input_path in
                if is_supported ext then
                  (let files_to_process = [input_path] in
                   (hash_loop fs files_to_process
                      [''Processing single file: '' @ quoted (str input_path)
                         @ '' (Type: '' @ quoted ext @ '')'',
                       [LF] @ ''--- Hashing '' @ show_nat (length files_to_process)
                         @ '' Supported Files ---''],
                    None))
                else
                  ([red (''Error: File type '' @ quoted ext
                         @ '' not supported for single file processing.'')], None))
           | Inr False \<Rightarrow>
               (case is_dir fs input_path of
                  Inl e \<Rightarrow> ([], Some e)
                | Inr True \<Rightarrow>
                    (case get_all_files_recursive fs input_path of
                       Inl e \<Rightarrow>
                         ([''Processing folder recursively: '' @ quoted (str input_path)],
                          Some e)
                     | Inr all_found_files \<Rightarrow>
                         (let files_to_process =
                                append_if (\<lambda>found_file. is_supported (file_extension found_file))
                                  all_found_files []
                          in if files_to_process = [] then
                               ([''Processing folder recursively: '' @ quoted (str input_path),
                                 yellow (''Warning: No supported files found in folder ''
                                         @ quoted (str input_path) @ ''.'')], None)
                             else
                               (hash_loop fs files_to_process
                                  [''Processing folder recursively: ''
                                     @ quoted (str input_path),
                                   [LF] @ ''--- Hashing '' @ show_nat (length files_to_process)
                                     @ '' Supported Files ---''],
                                None)))
                | Inr False \<Rightarrow>
                    ([red (''Error: Input path '' @ quoted (str input_path)
                           @ '' is not a file or a directory.'')], None))))"

section \<open>The HTTP service (\<open>services/api/src/process_file.py\<close>)\<close>

text \<open>
  A handler ends with a returned value, with an \<open>HTTPException\<close> (status code and
  detail), or with an exception nobody catches. A returned dictionary is the list of its
  items; a handler that returns \<open>None\<close> returns no dictionary.
\<close>

datatype failure =
    HTTPException nat string
  | Unhandled pyexc

type_synonym json = "(string \<times> string) list"

text \<open>
  \<open>hash_file\<close>: the digest or the error is printed; no \<open>return\<close> statement is
  reached on any path, so the value returned is \<open>None\<close>.
\<close>

definition hash_file :: "filesystem \<Rightarrow> path \<Rightarrow> string list \<times> string option" where
  "hash_file fs file_path =
     (case open_read fs file_path of
        Inr content \<Rightarrow>
          (let hashed_content = hexdigest (sha256 content) in
           ([''File: '' @ quoted (str file_path) @ [LF]
             @ ''  Hash: '' @ hashed_content @ [LF]], None))
      | Inl (OSError n f) \<Rightarrow>
          ([red (''Error processing '' @ quoted (str file_path) @ '': ''
                 @ str_exc (OSError n f))], None)
      | Inl e \<Rightarrow>
          ([red (''An unexpected error occurred with '' @ quoted (str file_path) @ '': ''
                 @ str_exc e)], None))"

text \<open>
  \<open>process_file\<close>. Its two diagnostic prints are left out: they do not touch the
  response. The preview read is kept, since its failure is the 500 branch. The allow-list
  is joined in the order of the source text; Python fixes no order for a set.
\<close>

definition process_file :: "filesystem \<Rightarrow> string \<Rightarrow> failure + json" where
  "process_file fs file_path =
     (let decoded_file_path = unquote file_path;
          input_path = Path decoded_file_path
      in case resolve fs input_path of
           Inl e \<Rightarrow> Inl (Unhandled e)
         | Inr resolved \<Rightarrow>
             if str_contains ''..'' (str resolved) then
               Inl (HTTPException 400
                      ''Invalid file path provided. Directory traversal detected.'')
             else
               (case exists fs input_path of
                  Inl e \<Rightarrow> Inl (Unhandled e)
                | Inr False \<Rightarrow>
                    Inl (HTTPException 404
                           (''Error: Path not found at: '' @ quoted (str input_path)))
                | Inr True \<Rightarrow>
                    (case is_file fs input_path of
                       Inl e \<Rightarrow> Inl (Unhandled e)
                     | Inr True \<Rightarrow>
                         (let ext = file_extension input_path in
                          if is_supported ext then
                            (case open_read fs input_path of
                               Inr content \<Rightarrow>
                                 Inr [(''message'',
                                       ''File '' @ quoted (name input_path) @ '' (type: ''
                                       @ quoted ext @ '') processed successfully.'')]
                             | Inl e \<Rightarrow>
                                 Inl (HTTPException 500
                                        (''Error processing file '' @ quoted (name input_path)
                                         @ '': '' @ str_exc e)))
                          else
                            Inl (HTTPException 400
                                   (''Error: File type '' @ quoted ext
                                    @ '' not supported for single file processing. ''
                                    @ ''Supported types: '' @ join '', '' SUPPORTED_EXTENSIONS)))
                     | Inr False \<Rightarrow>
                         (case is_dir fs input_path of
                            Inl e \<Rightarrow> Inl (Unhandled e)
                          | Inr True \<Rightarrow>
                              Inl (HTTPException 400
                                     (quoted (str input_path)
                                      @ '' is a directory. Use the '' @ quoted ''/process-folder''
                                      @ '' endpoint for folders.''))
                          | Inr False \<Rightarrow>
                              Inl (HTTPException 400
                                     (''Error: Input path '' @ quoted (str input_path)
                                      @ '' is not a valid file or directory type.''))))))"

text \<open>
  The filter loop of \<open>process_folder\<close>. The local \<open>files_to_process\<close> is declared by
  an annotation and never assigned: it is \<open>None\<close> while unbound, and using it raises
  \<open>UnboundLocalError\<close>.
\<close>

fun collect ::
  "path list option \<Rightarrow> path list \<Rightarrow> string list \<Rightarrow> string list \<times> (pyexc + path list option)"
where
  "collect files_to_process [] out = (out, Inr files_to_process)"
| "collect files_to_process (found_file # rest) out =
     (let ext = file_extension found_file in
      if is_supported ext then
        (case files_to_process of
           None \<Rightarrow> (out, Inl (UnboundLocalError ''files_to_process''))
         | Some acc \<Rightarrow> collect (Some (acc @ [found_file])) rest out)
      else
        collect files_to_process rest
          (out @ [''  Skipping: '' @ quoted (str found_file) @ '' (Type: '' @ quoted ext
                  @ '' not supported)'']))"

definition process_folder ::
  "filesystem \<Rightarrow> string \<Rightarrow> string list \<times> (failure + json option)"
where
  "process_folder fs folder_path =
     (let input_path = Path folder_path in
      case exists fs input_path of
        Inl e \<Rightarrow> ([], Inl (Unhandled e))
      | Inr False \<Rightarrow>
          ([red (''Error: Path not found at: '' @ quoted (str input_path))], Inr None)
      | Inr True \<Rightarrow>
          (let files_to_process = (None :: path list option) in
           case is_file fs input_path of
             Inl e \<Rightarrow> ([], Inl (Unhandled e))
           | Inr True \<Rightarrow>
               ([quoted (str input_path) @ '': is not a file, use ''
                 @ quoted ''/process-folder'' @ '' endpoint for folders.''], Inr (Some []))
           | Inr False \<Rightarrow>
               (case is_dir fs input_path of
                  Inl e \<Rightarrow> ([], Inl (Unhandled e))
                | Inr True \<Rightarrow>
                    (case get_all_files_recursive fs input_path of
                       Inl e \<Rightarrow>
                         ([''Processing folder: '' @ quoted (str input_path)],
                          Inl (Unhandled e))
                     | Inr all_found_files \<Rightarrow>
                         (case collect files_to_process all_found_files
                                 [''Processing folder: '' @ quoted (str input_path)] of
                            (out, Inl e) \<Rightarrow> (out, Inl (Unhandled e))
                          | (out, Inr None) \<Rightarrow>
                              (out, Inl (Unhandled (UnboundLocalError ''files_to_process'')))
                          | (out, Inr (Some files)) \<Rightarrow>
                              (out @ concat (map (\<lambda>current_file_path.
                                                   fst (hash_file fs current_file_path)) files),
                               Inr (Some [(''message'',
                                           ''Processing folder at: '' @ folder_path)]))))
                | Inr False \<Rightarrow>
                    ([red (''Error: Input path '' @ quoted (str input_path)
                           @ '' is not a type.'')], Inr None))))"

section \<open>Notions of the specification\<close>

text \<open>
  The extension as the specification words it: the text after the final dot of the file
  name, lowercased; empty when the name has no dot, or starts with a dot and has no
  further one.
\<close>

definition after_final_dot :: "string \<Rightarrow> string" where
  "after_final_dot nm = rev (takeWhile (\<lambda>c. c \<noteq> CHR ''.'') (rev nm))"

definition spec_extension :: "string \<Rightarrow> string" where
  "spec_extension nm =
     (if CHR ''.'' \<notin> set nm \<or> (take 1 nm = ''.'' \<and> CHR ''.'' \<notin> set (drop 1 nm)) then []
      else lower (after_final_dot nm))"

text \<open>
  What lies below a directory: \<open>descend d ns\<close> follows the names \<open>ns\<close> downwards from
  the node \<open>d\<close>, through directories only, and \<open>subpath p ns\<close> is the path \<open>p\<close> with these
  names added. \<open>below d\<close> lists the names of everything below \<open>d\<close>, in the order in which
  \<open>rglob\<close> visits a tree that it can read.
\<close>

fun descend :: "node \<Rightarrow> string list \<Rightarrow> node option" where
  "descend n [] = Some n"
| "descend (Dir r x es) (c # cs) =
     (case map_of es c of None \<Rightarrow> None | Some m \<Rightarrow> descend m cs)"
| "descend n (c # cs) = None"






section \<open>Sample file systems\<close>

definition sample_files :: node where
  "sample_files =
     Dir True True
       [(''secret.txt'', File False [0x73, 0x33]),
        (''report.pdf'', File True [0x61, 0x62, 0x63]),
        (''notes.TXT'', File True []),
        (''binary.exe'', File True [0x4d, 0x5a]),
        (''.gitignore'', File True [0x2a]),
        (''sub'', Dir True True [(''a.docx'', File True [0x50, 0x4b])]),
        (''my..dir'', Dir True True [(''r.pdf'', File True [0x25])])]"

definition fs0 :: filesystem where
  "fs0 =
     \<lparr>root_dir =
        Dir True True
          [(''srv'', Dir True True [(''files'', sample_files), (''empty'', Dir True True [])]),
           (''etc'', Dir True True [(''hosts'', File True [0x31]),
                                    (''notes.txt'', File True [0x68, 0x69])]),
           (''dev'', Dir True True [(''null'', Other)])],
      cwd = [''srv'']\<rparr>"

text \<open>
  A file system with a directory \<open>/d\<close> that holds a link to a file, a link to a directory
  outside it and a directory that may not be listed, and with a directory \<open>/e\<close> that holds
  one that may be listed but not searched.
\<close>

definition linked_files :: node where
  "linked_files =
     Dir True True
       [(''link.txt'', Symlink (Path ''real/a.txt'')),
        (''ldir'', Symlink (Path ''../other'')),
        (''real'', Dir True True [(''a.txt'', File True [0x78])]),
        (''locked'', Dir False True [(''c.txt'', File True [0x7a])])]"

definition fs1 :: filesystem where
  "fs1 =
     \<lparr>root_dir =
        Dir True True
          [(''d'', linked_files),
           (''other'', Dir True True [(''b.txt'', File True [0x79])]),
           (''e'', Dir True True [(''nosearch'', Dir True False [(''f.pdf'', File True [0x71])])])],
      cwd = []\<rparr>"

section \<open>Basic facts about the file-system queries\<close>

lemma exists_stat: "stat fs p = Inr n \<Longrightarrow> exists fs p = Inr True"
  by (simp add: exists_def)


lemma is_dir_True: "is_dir fs p = Inr True \<Longrightarrow> \<exists>r x es. stat fs p = Inr (Dir r x es)"
  by (auto simp: is_dir_def split: sum.splits pyexc.splits node.splits if_splits)

lemma is_file_True: "is_file fs p = Inr True \<Longrightarrow> \<exists>r c. stat fs p = Inr (File r c)"
  by (auto simp: is_file_def split: sum.splits pyexc.splits node.splits if_splits)

lemma is_dir_exists: "is_dir fs p = Inr True \<Longrightarrow> exists fs p = Inr True"
  by (auto dest!: is_dir_True simp: exists_def)

lemma is_dir_not_file: "is_dir fs p = Inr True \<Longrightarrow> is_file fs p = Inr False"
  by (auto dest!: is_dir_True simp: is_file_def)

lemma is_file_exists: "is_file fs p = Inr True \<Longrightarrow> exists fs p = Inr True"
  by (auto dest!: is_file_True simp: exists_def)

section \<open>The folder endpoint\<close>

lemma collect_unbound:
  "snd (collect None xs out) = Inl (UnboundLocalError ''files_to_process'')
   \<or> snd (collect None xs out) = Inr None"
  by (induction xs arbitrary: out) (simp_all add: Let_def)

text \<open>
  Claim C2. For every existing directory given as \<open>folder_path\<close>, the directory branch of
  \<open>process_folder\<close> uses the accumulation variable \<open>files_to_process\<close>, which was never
  initialised, and fails: the handler always ends with an uncaught exception and returns
  nothing, and whenever the discovery of the files returns, that exception is the
  \<open>UnboundLocalError\<close> for the variable. (With a supported file in the folder the
  \<open>append\<close> raises; without one the loop over the variable that follows raises. When
  the discovery itself ends with an exception, the handler ends with it, before the
  branch collects anything.)
\<close>

theorem process_folder_directory_fails:
  assumes "is_dir fs (Path folder_path) = Inr True"
  shows "(\<exists>e. snd (process_folder fs folder_path) = Inl (Unhandled e))
         \<and> (\<forall>all_found_files.
               get_all_files_recursive fs (Path folder_path) = Inr all_found_files \<longrightarrow>
               snd (process_folder fs folder_path)
                 = Inl (Unhandled (UnboundLocalError ''files_to_process'')))"
proof -
  have returned: "snd (process_folder fs folder_path)
                    = Inl (Unhandled (UnboundLocalError ''files_to_process''))"
    if g: "get_all_files_recursive fs (Path folder_path) = Inr found" for found
  proof -
    let ?out = "[''Processing folder: '' @ quoted (str (Path folder_path))]"
    obtain out r where c: "collect None found ?out = (out, r)"
      by (cases "collect None found ?out")
    with collect_unbound [of found ?out]
    have "r = Inl (UnboundLocalError ''files_to_process'') \<or> r = Inr None" by simp
    then show ?thesis
      using assms c g
      by (auto simp: process_folder_def Let_def is_dir_exists is_dir_not_file)
  qed
  have raised: "snd (process_folder fs folder_path) = Inl (Unhandled e)"
    if "get_all_files_recursive fs (Path folder_path) = Inl e" for e
    using assms that by (simp add: process_folder_def Let_def is_dir_exists is_dir_not_file)
  show ?thesis
    using returned raised by (cases "get_all_files_recursive fs (Path folder_path)") auto
qed

theorem process_folder_directory_fails_witness:
  "is_dir fs0 (Path ''/srv/files'') = Inr True
   \<and> get_all_files_recursive fs0 (Path ''/srv/files'')
       = Inr (map Path [''/srv/files/secret.txt'', ''/srv/files/report.pdf'',
                        ''/srv/files/notes.TXT'', ''/srv/files/binary.exe'',
                        ''/srv/files/.gitignore'', ''/srv/files/sub/a.docx'',
                        ''/srv/files/my..dir/r.pdf''])
   \<and> snd (process_folder fs0 ''/srv/files'')
       = Inl (Unhandled (UnboundLocalError ''files_to_process''))"
proof -
  have h: "is_dir fs0 (Path ''/srv/files'') = Inr True" by code_simp
  have g: "get_all_files_recursive fs0 (Path ''/srv/files'')
       = Inr (map Path [''/srv/files/secret.txt'', ''/srv/files/report.pdf'',
                        ''/srv/files/notes.TXT'', ''/srv/files/binary.exe'',
                        ''/srv/files/.gitignore'', ''/srv/files/sub/a.docx'',
                        ''/srv/files/my..dir/r.pdf''])" by code_simp
  show ?thesis using h g process_folder_directory_fails [OF h] by blast
qed

section \<open>The return value of \<open>hash_file\<close>\<close>

text \<open>
  Claim C9. \<open>hash_file\<close> is declared to return a string, but on every input, whether the
  hashing succeeds or an exception is caught, it returns \<open>None\<close>: the digest is printed
  and not returned.
\<close>

theorem hash_file_returns_None:
  "snd (hash_file fs p) = None
   \<and> (\<forall>content. open_read fs p = Inr content \<longrightarrow>
        fst (hash_file fs p)
          = [''File: '' @ quoted (str p) @ [LF]
             @ ''  Hash: '' @ hexdigest (sha256 content) @ [LF]])"
  by (auto simp: hash_file_def Let_def split: sum.splits pyexc.splits)

theorem hash_file_returns_None_witness:
  "open_read fs0 (Path ''/etc/hosts'') = Inr [0x31]
   \<and> snd (hash_file fs0 (Path ''/etc/hosts'')) = None
   \<and> fst (hash_file fs0 (Path ''/etc/hosts''))
       = [''File: '' @ quoted (str (Path ''/etc/hosts'')) @ [LF]
          @ ''  Hash: '' @ hexdigest (sha256 [0x31]) @ [LF]]"
proof -
  have a: "open_read fs0 (Path ''/etc/hosts'') = Inr [0x31]" by code_simp
  show ?thesis
    using a hash_file_returns_None [of fs0 "Path ''/etc/hosts''"] by simp
qed

section \<open>The folder endpoint on a missing path and on a file\<close>

text \<open>
  Claim C10, as amended. For every \<open>folder_path\<close> for which the existence check answers
  \<open>False\<close>, \<open>process_folder\<close> prints the not-found line, raises no HTTP error and
  returns \<open>None\<close>; for every \<open>folder_path\<close> that is a regular file it returns the
  empty dictionary.
\<close>

theorem process_folder_missing_or_file:
  "(exists fs (Path folder_path) = Inr False \<longrightarrow>
      process_folder fs folder_path
        = ([red (''Error: Path not found at: '' @ quoted (str (Path folder_path)))], Inr None))
   \<and> (is_file fs (Path folder_path) = Inr True \<longrightarrow>
        snd (process_folder fs folder_path) = Inr (Some []))"
  by (auto simp: process_folder_def Let_def is_file_exists)

theorem process_folder_missing_or_file_witness:
  "exists fs0 (Path ''/srv/nothing'') = Inr False
   \<and> process_folder fs0 ''/srv/nothing''
       = ([red (''Error: Path not found at: '' @ quoted (str (Path ''/srv/nothing'')))], Inr None)
   \<and> is_file fs0 (Path ''/srv/files/report.pdf'') = Inr True
   \<and> snd (process_folder fs0 ''/srv/files/report.pdf'') = Inr (Some [])"
proof -
  have a: "exists fs0 (Path ''/srv/nothing'') = Inr False" by code_simp
  have b: "is_file fs0 (Path ''/srv/files/report.pdf'') = Inr True" by code_simp
  show ?thesis
    using a b process_folder_missing_or_file [of fs0 "''/srv/nothing''"]
      process_folder_missing_or_file [of fs0 "''/srv/files/report.pdf''"]
    by simp
qed

text \<open>
  Claim C10 as stated, for every \<open>folder_path\<close> that does not exist, does not hold:
  \<open>Path.exists\<close> answers \<open>False\<close> for the errors \<open>ENOENT\<close>, \<open>ENOTDIR\<close>, \<open>EBADF\<close>
  and \<open>ELOOP\<close> only, and raises every other \<open>OSError\<close> of \<open>stat\<close>. The directory
  \<open>/srv\<close> of \<open>fs0\<close> has no entry whose name is 256 times the letter \<open>a\<close>, and
  \<open>/e/nosearch\<close> of \<open>fs1\<close> has no entry \<open>missing\<close>; \<open>stat\<close> fails with
  \<open>ENAMETOOLONG\<close> for the first and with \<open>EACCES\<close> for the second, and the handler
  ends with that error, having printed nothing, instead of returning \<open>None\<close>.
\<close>

theorem process_folder_missing_or_file_counterexample:
  "descend (root_dir fs0) [''srv'', replicate 256 CHR ''a''] = None
   \<and> descend (root_dir fs1) [''e'', ''nosearch'', ''missing''] = None
   \<and> stat fs0 (Path (''/srv/'' @ replicate 256 CHR ''a''))
     = Inl (OSError ENAMETOOLONG (''/srv/'' @ replicate 256 CHR ''a''))
   \<and> process_folder fs0 (''/srv/'' @ replicate 256 CHR ''a'')
       = ([], Inl (Unhandled (OSError ENAMETOOLONG (''/srv/'' @ replicate 256 CHR ''a''))))
   \<and> lstat fs1 (Path ''/e/nosearch/missing'') = Inl (OSError EACCES ''/e/nosearch/missing'')
   \<and> process_folder fs1 ''/e/nosearch/missing''
       = ([], Inl (Unhandled (OSError EACCES ''/e/nosearch/missing'')))"
  by code_simp

section \<open>The traversal guard of the file endpoint\<close>

lemma collapse_no_parent:
  "''..'' \<notin> set acc \<Longrightarrow> ''..'' \<notin> set (collapse acc cs)"
proof (induction cs arbitrary: acc)
  case Nil
  then show ?case by simp
next
  case (Cons c cs)
  then show ?case by (auto dest: in_set_butlastD)
qed

lemma resolve_no_parent:
  assumes "resolve fs p = Inr r" and "''..'' \<notin> set (cwd fs)"
  shows "''..'' \<notin> set (tail r)"
proof -
  from assms(1) obtain s where "r = abspath fs s"
    by (auto simp: resolve_def Let_def split: sum.splits prod.splits pyexc.splits if_splits)
  then have "tail r = collapse [] ((if root s = [] then cwd fs else []) @ tail s)"
    by (simp add: abspath_def)
  then show ?thesis using collapse_no_parent [of "[]"] assms(2) by simp
qed

text \<open>
  Claim C1. Every query path that contains \<open>..\<close> and resolves outside the intended root
  is to be rejected by \<open>process_file\<close> with status 400, before the existence check. The
  code does not do so: the two paths below leave \<open>/srv/files\<close> through \<open>..\<close>, pass the
  guard, and are answered by what follows it, the first with 404 from the existence check
  and the second with the success message for a file outside \<open>/srv/files\<close>.
\<close>

theorem traversal_reaches_existence_check:
  "process_file fs0 ''/srv/files/../../etc/missing.txt''
     = Inl (HTTPException 404
              (''Error: Path not found at: '' @ quoted ''/srv/files/../../etc/missing.txt''))
   \<and> process_file fs0 ''/srv/files/../../etc/notes.txt''
       = Inr [(''message'',
               ''File '' @ quoted ''notes.txt'' @ '' (type: '' @ quoted ''txt''
               @ '') processed successfully.'')]"
  by code_simp

section \<open>Extension classification\<close>

lemma rfind_absent: "c \<notin> set s \<Longrightarrow> rfind s c = -1"
  by (induction s) (auto simp: Let_def)

lemma rfind_last: "c \<notin> set b \<Longrightarrow> rfind (a @ c # b) c = int (length a)"
  by (induction a) (auto simp: Let_def rfind_absent)

lemma lstrip_dot: "CHR ''.'' \<notin> set b \<Longrightarrow> lstrip CHR ''.'' (CHR ''.'' # b) = b"
  by (cases b) (auto simp: lstrip_def)

lemma suffix_no_dot: "CHR ''.'' \<notin> set (name p) \<Longrightarrow> suffix p = []"
  by (simp add: suffix_def rfind_absent)

lemma suffix_dot:
  assumes "name p = a @ CHR ''.'' # b" and "CHR ''.'' \<notin> set b"
  shows "suffix p = (if a \<noteq> [] \<and> b \<noteq> [] then CHR ''.'' # b else [])"
  using assms by (auto simp: suffix_def Let_def rfind_last)

lemma file_extension_no_dot: "CHR ''.'' \<notin> set (name p) \<Longrightarrow> file_extension p = []"
  by (simp add: file_extension_def suffix_no_dot lstrip_def lower_def)

lemma file_extension_dot:
  assumes "name p = a @ CHR ''.'' # b" and "CHR ''.'' \<notin> set b"
  shows "file_extension p = (if a \<noteq> [] then lower b else [])"
  using assms
  by (auto simp: file_extension_def suffix_dot lstrip_dot) (simp_all add: lstrip_def lower_def)

lemma after_final_dot_split:
  "CHR ''.'' \<notin> set b \<Longrightarrow> after_final_dot (a @ CHR ''.'' # b) = b"
  by (simp add: after_final_dot_def takeWhile_append1 [where x = "CHR ''.''"] takeWhile_append)

lemma spec_extension_dot:
  assumes "CHR ''.'' \<notin> set b"
  shows "spec_extension (a @ CHR ''.'' # b) = (if a \<noteq> [] then lower b else [])"
proof (cases a)
  case Nil
  with assms show ?thesis by (simp add: spec_extension_def)
next
  case (Cons x xs)
  with assms after_final_dot_split [of b a] show ?thesis by (simp add: spec_extension_def)
qed

lemma file_extension_refines_spec: "file_extension p = spec_extension (name p)"
proof (cases "CHR ''.'' \<in> set (name p)")
  case False
  then show ?thesis by (simp add: file_extension_no_dot spec_extension_def)
next
  case True
  then obtain a b where s: "name p = a @ CHR ''.'' # b" "CHR ''.'' \<notin> set b"
    by (auto dest: split_list_last)
  then show ?thesis by (simp add: file_extension_dot spec_extension_dot)
qed

lemma empty_not_supported: "\<not> is_supported []"
  by (simp add: is_supported_def SUPPORTED_EXTENSIONS_def)

lemma supported_shape:
  "e \<in> set SUPPORTED_EXTENSIONS \<Longrightarrow> lower e = e \<and> CHR ''.'' \<notin> set e \<and> e \<noteq> []"
  by (auto simp: SUPPORTED_EXTENSIONS_def lower_def lower_char_def)

lemma lower_keeps_dot: "CHR ''.'' \<in> set s \<Longrightarrow> CHR ''.'' \<in> set (lower s)"
  by (force simp: lower_def lower_char_def)

text \<open>
  Claim C5. For every supported extension \<open>E\<close> and every file whose name ends in a dot
  and an extension equal to \<open>E\<close> up to letter case, the supported-extension test on the
  classified extension is true (so \<open>PDF\<close> and \<open>pdf\<close> are both accepted); and the
  allow-list holds only lowercase entries without a dot.
\<close>

theorem supported_case_insensitive:
  "(\<forall>E \<in> set SUPPORTED_EXTENSIONS. \<forall>stem E'.
      stem \<noteq> [] \<and> lower E' = E \<and> name p = stem @ ''.'' @ E'
        \<longrightarrow> file_extension p = E \<and> is_supported (file_extension p))
   \<and> (\<forall>e \<in> set SUPPORTED_EXTENSIONS. lower e = e \<and> CHR ''.'' \<notin> set e)"
proof (intro conjI ballI allI impI)
  fix E stem E'
  assume E: "E \<in> set SUPPORTED_EXTENSIONS"
    and h: "stem \<noteq> [] \<and> lower E' = E \<and> name p = stem @ ''.'' @ E'"
  from E have "CHR ''.'' \<notin> set E" by (simp add: supported_shape)
  with h have nodot: "CHR ''.'' \<notin> set E'" using lower_keeps_dot by blast
  from h have "name p = stem @ CHR ''.'' # E'" by simp
  with nodot h show "file_extension p = E" by (simp add: file_extension_dot)
  with E show "is_supported (file_extension p)" by (simp add: is_supported_def)
next
  fix e assume "e \<in> set SUPPORTED_EXTENSIONS"
  then show "lower e = e" by (simp add: supported_shape)
next
  fix e assume "e \<in> set SUPPORTED_EXTENSIONS"
  then show "CHR ''.'' \<notin> set e" by (simp add: supported_shape)
qed

theorem supported_case_insensitive_witness:
  "''pdf'' \<in> set SUPPORTED_EXTENSIONS \<and> ''Annual.Report'' \<noteq> [] \<and> lower ''PdF'' = ''pdf''
   \<and> name (Path ''/srv/Annual.Report.PdF'') = ''Annual.Report'' @ ''.'' @ ''PdF''
   \<and> file_extension (Path ''/srv/Annual.Report.PdF'') = ''pdf''
   \<and> is_supported (file_extension (Path ''/srv/Annual.Report.PdF''))
   \<and> lower ''pdf'' = ''pdf'' \<and> CHR ''.'' \<notin> set ''pdf''"
proof -
  have a: "''pdf'' \<in> set SUPPORTED_EXTENSIONS" by (simp add: SUPPORTED_EXTENSIONS_def)
  have b: "lower ''PdF'' = ''pdf''" by code_simp
  have c: "name (Path ''/srv/Annual.Report.PdF'') = ''Annual.Report'' @ ''.'' @ ''PdF''"
    by code_simp
  show ?thesis
    using a b c supported_case_insensitive [of "Path ''/srv/Annual.Report.PdF''"]
    by (metis list.distinct(1))
qed



lemma append_if_filter: "append_if keep xs acc = acc @ filter keep xs"
  unfolding append_if_def by (induction xs arbitrary: acc) simp_all

lemma process_file_never_accepts_unsupported:
  assumes "\<not> is_supported (file_extension (Path (unquote q)))"
  shows "process_file fs q \<noteq> Inr body"
  using assms
  by (auto simp: process_file_def Let_def split: sum.splits bool.splits)

lemma process_file_rejects_unsupported:
  assumes "is_file fs (Path (unquote q)) = Inr True"
    and "\<not> is_supported (file_extension (Path (unquote q)))"
    and "resolve fs (Path (unquote q)) = Inr resolved"
  shows "\<exists>d. process_file fs q = Inl (HTTPException 400 d)"
  using assms by (simp add: process_file_def Let_def is_file_exists)

lemma main_rejects_unsupported:
  assumes "is_file fs (Path raw) = Inr True"
    and "\<not> is_supported (file_extension (Path raw))"
  shows "main fs raw
           = ([red (''Error: File type '' @ quoted (file_extension (Path raw))
                    @ '' not supported for single file processing.'')], None)"
  using assms by (simp add: main_def Let_def is_file_exists)

text \<open>
  Claim C4. For every path, the extension classification of both surfaces returns the text
  after the final dot of the file name, lowercased, and the empty string when the name has
  no dot or starts with a dot and has no further one. The empty extension is not in the
  supported set, so a file with it is always rejected: the file endpoint never answers
  with success for it, and answers 400 when the path is a regular file that \<open>resolve\<close>
  resolves (every step of the handler before the classification then passes); the
  command-line tool prints the unsupported-type error, and the folder filter drops it.
\<close>

theorem extension_classification:
  "file_extension p = spec_extension (name p)
   \<and> \<not> is_supported []
   \<and> (file_extension (Path (unquote q)) = [] \<longrightarrow> (\<forall>body. process_file fs q \<noteq> Inr body))
   \<and> (is_file fs (Path (unquote q)) = Inr True \<and> file_extension (Path (unquote q)) = []
        \<and> (\<exists>resolved. resolve fs (Path (unquote q)) = Inr resolved)
        \<longrightarrow> (\<exists>d. process_file fs q = Inl (HTTPException 400 d)))
   \<and> (is_file fs (Path raw) = Inr True \<and> file_extension (Path raw) = []
        \<longrightarrow> main fs raw
              = ([red (''Error: File type '' @ quoted []
                       @ '' not supported for single file processing.'')], None))
   \<and> (file_extension f = []
        \<longrightarrow> f \<notin> set (append_if (\<lambda>found_file. is_supported (file_extension found_file)) found []))"
proof (intro conjI impI allI)
  show "file_extension p = spec_extension (name p)" by (rule file_extension_refines_spec)
  show "\<not> is_supported []" by (rule empty_not_supported)
  show "process_file fs q \<noteq> Inr body" if "file_extension (Path (unquote q)) = []" for body
    using that by (intro process_file_never_accepts_unsupported) (simp add: empty_not_supported)
  show "\<exists>d. process_file fs q = Inl (HTTPException 400 d)"
    if "is_file fs (Path (unquote q)) = Inr True \<and> file_extension (Path (unquote q)) = []
        \<and> (\<exists>resolved. resolve fs (Path (unquote q)) = Inr resolved)"
    using that process_file_rejects_unsupported [of fs q] by (auto simp: empty_not_supported)
  show "main fs raw
          = ([red (''Error: File type '' @ quoted [] @ '' not supported for single file processing.'')],
             None)"
    if "is_file fs (Path raw) = Inr True \<and> file_extension (Path raw) = []"
    using that main_rejects_unsupported [of fs raw] by (simp add: empty_not_supported)
  show "f \<notin> set (append_if (\<lambda>found_file. is_supported (file_extension found_file)) found [])"
    if "file_extension f = []"
    using that by (auto simp: append_if_filter empty_not_supported)
qed

theorem extension_classification_witness:
  "file_extension (Path ''a/b.tar.GZ'') = spec_extension (name (Path ''a/b.tar.GZ''))
   \<and> spec_extension (name (Path ''a/b.tar.GZ'')) = ''gz''
   \<and> \<not> is_supported []
   \<and> is_file fs0 (Path (unquote ''files/.gitignore'')) = Inr True
   \<and> file_extension (Path (unquote ''files/.gitignore'')) = []
   \<and> resolve fs0 (Path (unquote ''files/.gitignore''))
       = Inr \<lparr>root = ''/'', tail = [''srv'', ''files'', ''.gitignore'']\<rparr>
   \<and> (\<forall>body. process_file fs0 ''files/.gitignore'' \<noteq> Inr body)
   \<and> (\<exists>d. process_file fs0 ''files/.gitignore'' = Inl (HTTPException 400 d))
   \<and> is_file fs0 (Path ''files/.gitignore'') = Inr True
   \<and> file_extension (Path ''files/.gitignore'') = []
   \<and> main fs0 ''files/.gitignore''
       = ([red (''Error: File type '' @ quoted [] @ '' not supported for single file processing.'')],
          None)
   \<and> Path ''files/.gitignore''
       \<notin> set (append_if (\<lambda>found_file. is_supported (file_extension found_file))
                 [Path ''files/.gitignore'', Path ''files/report.pdf''] [])"
proof -
  have a: "is_file fs0 (Path (unquote ''files/.gitignore'')) = Inr True" by code_simp
  have b: "file_extension (Path (unquote ''files/.gitignore'')) = []" by code_simp
  have c: "is_file fs0 (Path ''files/.gitignore'') = Inr True" by code_simp
  have d: "file_extension (Path ''files/.gitignore'') = []" by code_simp
  have e: "spec_extension (name (Path ''a/b.tar.GZ'')) = ''gz''" by code_simp
  have r: "resolve fs0 (Path (unquote ''files/.gitignore''))
       = Inr \<lparr>root = ''/'', tail = [''srv'', ''files'', ''.gitignore'']\<rparr>" by code_simp
  note t = extension_classification [of _ "''files/.gitignore''" fs0 "''files/.gitignore''"
      "Path ''files/.gitignore''" "[Path ''files/.gitignore'', Path ''files/report.pdf'']"]
  show ?thesis
    using a b c d e r t [of "Path ''a/b.tar.GZ''"] by simp
qed

section \<open>The digest\<close>

text \<open>The test vector of the standard for the message \<open>abc\<close>.\<close>

lemma sha256_abc:
  "hexdigest (sha256 [0x61, 0x62, 0x63])
     = ''ba7816bf8f01cfea414140de5dae2223b00361a396177a9cb410ff61f20015ad''"
  by code_simp

lemma hexdigit_hex: "n < 16 \<Longrightarrow> hexdigit n \<in> set ''0123456789abcdef''"
  unfolding hexdigit_def by (rule nth_mem) simp

lemma nibble_bound: "unat ((w :: word32) AND 0xf) < 16"
proof -
  have "unat (w AND 15) \<le> unat (15 :: word32)"
    by (rule word_and_le1 [THEN word_le_nat_alt [THEN iffD1]])
  then show ?thesis by simp
qed

lemma length_hex32: "length (hex32 w) = 8"
  by (simp add: hex32_def)

lemma set_hex32: "c \<in> set (hex32 w) \<Longrightarrow> c \<in> set ''0123456789abcdef''"
  unfolding hex32_def using hexdigit_hex [OF nibble_bound] by auto

lemma length_hexdigest: "length (hexdigest s) = 64"
  by (simp add: hexdigest_def length_hex32 split: prod.splits)

lemma set_hexdigest: "c \<in> set (hexdigest s) \<Longrightarrow> c \<in> set ''0123456789abcdef''"
  unfolding hexdigest_def
  by (auto split: prod.splits dest!: set_hex32)

text \<open>
  Claim C6. For every file, hashing it twice without a change of its content gives the same
  digest: the digest is a function of the bytes alone, whichever surface hashes the file
  and under whichever path; and the digest is exactly 64 lowercase hexadecimal characters.
\<close>

theorem digest_deterministic_hex64:
  assumes "open_read fs p = Inr content" and "open_read fs' p' = Inr content"
  shows "\<exists>d. hash_loop fs [p] []
               = [''File: '' @ quoted (str p) @ [LF] @ ''  Hash: '' @ d @ [LF]]
           \<and> fst (hash_file fs' p')
               = [''File: '' @ quoted (str p') @ [LF] @ ''  Hash: '' @ d @ [LF]]
           \<and> d = hexdigest (sha256 content)
           \<and> length d = 64
           \<and> set d \<subseteq> set ''0123456789abcdef''"
proof (intro exI conjI)
  show "hash_loop fs [p] []
          = [''File: '' @ quoted (str p) @ [LF] @ ''  Hash: '' @ hexdigest (sha256 content) @ [LF]]"
    using assms(1) by (simp add: Let_def)
  show "fst (hash_file fs' p')
          = [''File: '' @ quoted (str p') @ [LF] @ ''  Hash: '' @ hexdigest (sha256 content) @ [LF]]"
    using assms(2) by (simp add: hash_file_def Let_def)
  show "length (hexdigest (sha256 content)) = 64" by (rule length_hexdigest)
  show "set (hexdigest (sha256 content)) \<subseteq> set ''0123456789abcdef''"
    using set_hexdigest by blast
qed simp

theorem digest_deterministic_hex64_witness:
  "open_read fs0 (Path ''/srv/files/report.pdf'') = Inr [0x61, 0x62, 0x63]
   \<and> open_read (fs0\<lparr>cwd := [''srv'', ''files'']\<rparr>) (Path ''./report.pdf'') = Inr [0x61, 0x62, 0x63]
   \<and> (\<exists>d. hash_loop fs0 [Path ''/srv/files/report.pdf''] []
               = [''File: '' @ quoted (str (Path ''/srv/files/report.pdf'')) @ [LF]
                  @ ''  Hash: '' @ d @ [LF]]
           \<and> fst (hash_file (fs0\<lparr>cwd := [''srv'', ''files'']\<rparr>) (Path ''./report.pdf''))
               = [''File: '' @ quoted (str (Path ''./report.pdf'')) @ [LF]
                  @ ''  Hash: '' @ d @ [LF]]
           \<and> d = hexdigest (sha256 [0x61, 0x62, 0x63])
           \<and> length d = 64
           \<and> set d \<subseteq> set ''0123456789abcdef'')"
proof -
  have a: "open_read fs0 (Path ''/srv/files/report.pdf'') = Inr [0x61, 0x62, 0x63]"
    by code_simp
  have b: "open_read (fs0\<lparr>cwd := [''srv'', ''files'']\<rparr>) (Path ''./report.pdf'')
             = Inr [0x61, 0x62, 0x63]"
    by code_simp
  show ?thesis
    using a b digest_deterministic_hex64 [OF a b] by blast
qed

section \<open>Batch hashing in the command-line tool\<close>







section \<open>The success response of the file endpoint\<close>

text \<open>
  Claim C8, as amended. For every existing regular file with a supported extension whose
  resolved path does not contain \<open>..\<close> and whose preview read succeeds, \<open>process_file\<close>
  returns normally (status 200) with the body
  \<open>{"message": "File '<name>' (type: '<ext>') processed successfully."}\<close>, where
  \<open><name>\<close> is the name of the file and \<open><ext>\<close> its classified extension.
\<close>

theorem process_file_success:
  assumes "is_file fs (Path (unquote file_path)) = Inr True"
    and "is_supported (file_extension (Path (unquote file_path)))"
    and "open_read fs (Path (unquote file_path)) = Inr content"
    and "resolve fs (Path (unquote file_path)) = Inr resolved"
    and "\<not> str_contains ''..'' (str resolved)"
  shows "process_file fs file_path
           = Inr [(''message'',
                   ''File '' @ quoted (name (Path (unquote file_path)))
                   @ '' (type: '' @ quoted (file_extension (Path (unquote file_path)))
                   @ '') processed successfully.'')]"
  using assms by (simp add: process_file_def Let_def is_file_exists)

theorem process_file_success_witness:
  "is_file fs0 (Path (unquote ''%2Fsrv%2Ffiles%2Freport.pdf'')) = Inr True
   \<and> is_supported (file_extension (Path (unquote ''%2Fsrv%2Ffiles%2Freport.pdf'')))
   \<and> open_read fs0 (Path (unquote ''%2Fsrv%2Ffiles%2Freport.pdf'')) = Inr [0x61, 0x62, 0x63]
   \<and> resolve fs0 (Path (unquote ''%2Fsrv%2Ffiles%2Freport.pdf''))
       = Inr \<lparr>root = ''/'', tail = [''srv'', ''files'', ''report.pdf'']\<rparr>
   \<and> \<not> str_contains ''..'' (str \<lparr>root = ''/'', tail = [''srv'', ''files'', ''report.pdf'']\<rparr>)
   \<and> process_file fs0 ''%2Fsrv%2Ffiles%2Freport.pdf''
       = Inr [(''message'',
               ''File '' @ quoted ''report.pdf'' @ '' (type: '' @ quoted ''pdf''
               @ '') processed successfully.'')]"
proof -
  have a: "is_file fs0 (Path (unquote ''%2Fsrv%2Ffiles%2Freport.pdf'')) = Inr True" by code_simp
  have b: "is_supported (file_extension (Path (unquote ''%2Fsrv%2Ffiles%2Freport.pdf'')))"
    by code_simp
  have c: "open_read fs0 (Path (unquote ''%2Fsrv%2Ffiles%2Freport.pdf'')) = Inr [0x61, 0x62, 0x63]"
    by code_simp
  have d: "resolve fs0 (Path (unquote ''%2Fsrv%2Ffiles%2Freport.pdf''))
       = Inr \<lparr>root = ''/'', tail = [''srv'', ''files'', ''report.pdf'']\<rparr>" by code_simp
  have e: "\<not> str_contains ''..'' (str \<lparr>root = ''/'', tail = [''srv'', ''files'', ''report.pdf'']\<rparr>)"
    by code_simp
  have f: "name (Path (unquote ''%2Fsrv%2Ffiles%2Freport.pdf'')) = ''report.pdf''" by code_simp
  have g: "file_extension (Path (unquote ''%2Fsrv%2Ffiles%2Freport.pdf'')) = ''pdf''" by code_simp
  show ?thesis
    using a b c d e process_file_success [OF a b c d e] unfolding f g by blast
qed

text \<open>
  The claim as first stated gives the message as
  \<open><name> (type: '<ext>') processed successfully.\<close> and has no condition on the
  resolved path. For \<open>/srv/files/report.pdf\<close> the message of the code differs from that
  text (it starts with \<open>File\<close> and quotes the name), and the readable, supported file
  \<open>/srv/files/my..dir/r.pdf\<close> is answered with 400 by the traversal guard.
\<close>

theorem process_file_success_counterexample:
  "is_file fs0 (Path (unquote ''/srv/files/report.pdf'')) = Inr True
   \<and> is_supported (file_extension (Path (unquote ''/srv/files/report.pdf'')))
   \<and> open_read fs0 (Path (unquote ''/srv/files/report.pdf'')) = Inr [0x61, 0x62, 0x63]
   \<and> process_file fs0 ''/srv/files/report.pdf''
       \<noteq> Inr [(''message'',
                name (Path (unquote ''/srv/files/report.pdf''))
                @ '' (type: '' @ quoted (file_extension (Path (unquote ''/srv/files/report.pdf'')))
                @ '') processed successfully.'')]
   \<and> is_file fs0 (Path (unquote ''/srv/files/my..dir/r.pdf'')) = Inr True
   \<and> is_supported (file_extension (Path (unquote ''/srv/files/my..dir/r.pdf'')))
   \<and> open_read fs0 (Path (unquote ''/srv/files/my..dir/r.pdf'')) = Inr [0x25]
   \<and> process_file fs0 ''/srv/files/my..dir/r.pdf''
       = Inl (HTTPException 400 ''Invalid file path provided. Directory traversal detected.'')"
  by code_simp

section \<open>Recursive discovery\<close>



lemma subpath_inject: "subpath p ms = subpath p ns \<Longrightarrow> ms = ns"
proof -
  assume "subpath p ms = subpath p ns"
  then have "tail (subpath p ms) = tail (subpath p ns)" by simp
  then show ?thesis by (simp add: subpath_def)
qed














lemma scandir_plain: "stat fs P = Inr (Dir True x es) \<Longrightarrow> scandir fs P = Inr es"
  by (simp add: scandir_def)






lemma stat_not_long: "stat fs D = Inr d \<Longrightarrow> length (str D) < 4096"
  by (auto simp: stat_def lookup_def split: if_splits sum.splits)






end
